theory Spec2Isabelle
  imports Complex_Main
begin

section \<open>Data model of dbt/node\_runners.py\<close>

text \<open>
  A graph node is a validated dictionary. The keys this module reads are the fields of
  the record; a key that may hold Python's \<open>None\<close> is an option. \<open>NodeType\<close> and
  \<open>RunHookType\<close> are the enumerations of \<open>dbt.node_types\<close>.
\<close>

datatype node_type = Model | Test | Archive | Operation

datatype run_hook_type = Start | End

record node =
  unique_id :: string
  resource_type :: node_type
  name :: string
  schema :: string
  wrapped_sql :: "string option"
  injected_sql :: "string option"
  build_path :: "string option"
  materialized :: "string option"
  tags :: "string list"

text \<open>
  \<open>flat_graph\<close> is a dictionary; \<open>nodes\<close> is its entry of that name (unique id to node,
  in dictionary order), \<open>None\<close> when the key is absent.
\<close>

record flat_graph =
  nodes :: "(string \<times> node) list option"
  macros :: "string list"

type_synonym profile = string

record project =
  run_environment :: profile
  target_path :: "string option"

record adapter =
  adapter_type :: string

text \<open>A materialization macro of the graph, named by its unique id.\<close>

type_synonym macro = string

text \<open>The dictionary \<open>dbt.hooks.get_hook_dict\<close> returns; \<open>hook_sql\<close> is its key \<open>sql\<close>.\<close>

record hook =
  hook_sql :: "string option"
  hook_transaction :: bool

text \<open>Python values that reach a result's \<open>status\<close>: a cell of a fetched row, or a string.\<close>

datatype pyval = PyNone | PyInt int | PyStr string

text \<open>
  The context \<open>CompileRunner.node_context\<close> builds for the runtime rendering pass: the
  two values of the tracking user, and the three closures, which are the adapter's
  methods bound to the profile and to the node's name.
\<close>

record node_context =
  nc_run_started_at :: string
  nc_invocation_id :: string
  nc_profile :: profile
  nc_model_name :: string

subsection \<open>Faults\<close>

text \<open>
  The exceptions the module raises or classifies. \<open>CompilationException\<close> and
  \<open>RuntimeException\<close> (of \<open>dbt.exceptions\<close>) carry a message and a \<open>node\<close> attribute;
  \<open>RuntimeError\<close>, \<open>IndexError\<close>, \<open>KeyError\<close>, \<open>AttributeError\<close> are Python's own;
  \<open>OtherException\<close> is any other subclass of \<open>Exception\<close>, \<open>NonException\<close> a
  \<open>BaseException\<close> outside \<open>Exception\<close>.
\<close>

datatype fault =
    CompilationException string "node option"
  | RuntimeException string "node option"
  | MissingMaterialization node string
  | InternalException string
  | RuntimeError string
  | IndexError
  | KeyError string
  | AttributeError
  | OtherException string
  | NonException string

subsection \<open>Collaborator calls\<close>

text \<open>
  What a test double would record: every call the module makes to a collaborator
  (adapter, compiler, renderer, writer, logger, printer, macro registry), with its
  arguments, and the entries into the runner's own \<open>compile\<close>, \<open>run\<close> and \<open>execute\<close>.
\<close>

datatype event =
    Compile_called
  | Run_called node
  | Execute_called node
  | Compiler_compile_node node
  | Get_rendered "string option" node_context
  | Write_node node "string option" string string
  | Logger_debug string
  | Print_skip_line node string string nat nat
  | Release_connection profile string
  | Clear_transaction profile
  | Execute_one profile string string bool
  | Execute_and_fetch profile "string option" string bool
  | Get_existing_schemas profile
  | Create_schema profile string
  | Get_nodes_by_tags "node list" run_hook_type node_type
  | Get_hook_dict "string option"
  | Validate_hook hook
  | Generate_context node
  | Get_materialization_macro "string option" string
  | Macro_generator macro
  | Load_result string

text \<open>
  The collaborators themselves are not part of the module. Each is a function on an
  abstract world \<open>'w\<close> that returns a value or raises; \<open>'c\<close> is the type of the rendering
  context of \<open>dbt.context.runtime.generate\<close>. \<open>time_time\<close> is the clock.
\<close>

type_synonym ('w, 'a) ext = "'w \<Rightarrow> (fault + 'a) \<times> 'w"

record ('w, 'c) env =
  time_time :: "'w \<Rightarrow> real \<times> 'w"
  strict_mode :: bool
  run_started_at :: string
  invocation_id :: string
  red :: "string \<Rightarrow> string"
  exc_str :: "fault \<Rightarrow> string"
  to_string :: "fault \<Rightarrow> string"
  compiler_compile_node :: "project \<Rightarrow> node \<Rightarrow> flat_graph \<Rightarrow> ('w, node option) ext"
  get_rendered :: "string option \<Rightarrow> node_context \<Rightarrow> ('w, string) ext"
  write_node :: "node \<Rightarrow> string option \<Rightarrow> string \<Rightarrow> string \<Rightarrow> ('w, string) ext"
  get_nodes_by_tags :: "node list \<Rightarrow> run_hook_type \<Rightarrow> node_type \<Rightarrow> ('w, node list) ext"
  get_hook_dict :: "string option \<Rightarrow> ('w, hook) ext"
  validate_hook :: "hook \<Rightarrow> ('w, unit) ext"
  generate :: "node \<Rightarrow> project \<Rightarrow> flat_graph \<Rightarrow> ('w, 'c) ext"
  get_materialization_macro :: "flat_graph \<Rightarrow> string option \<Rightarrow> string \<Rightarrow> ('w, macro option) ext"
  macro_generator :: "macro \<Rightarrow> 'c \<Rightarrow> ('w, unit) ext"
  load_result :: "'c \<Rightarrow> string \<Rightarrow> ('w, pyval option) ext"
  release_connection :: "profile \<Rightarrow> string \<Rightarrow> ('w, unit) ext"
  clear_transaction :: "profile \<Rightarrow> ('w, string) ext"
  execute_one :: "profile \<Rightarrow> string \<Rightarrow> string \<Rightarrow> bool \<Rightarrow> ('w, unit) ext"
  execute_and_fetch ::
    "profile \<Rightarrow> string option \<Rightarrow> string \<Rightarrow> bool \<Rightarrow> ('w, string \<times> pyval list list) ext"
  get_existing_schemas :: "profile \<Rightarrow> ('w, string list) ext"
  create_schema :: "profile \<Rightarrow> string \<Rightarrow> ('w, unit) ext"

text \<open>
  A method of the module, run from a world: its value or the fault it raises, the world
  it leaves, and the calls it made, in order.
\<close>

type_synonym ('w, 'a) run = "'w \<Rightarrow> (fault + 'a) \<times> 'w \<times> event list"

definition ret :: "'a \<Rightarrow> ('w, 'a) run" where
  "ret x w = (Inr x, w, [])"

definition throw :: "fault \<Rightarrow> ('w, 'a) run" where
  "throw e w = (Inl e, w, [])"

definition call :: "event \<Rightarrow> ('w, 'a) ext \<Rightarrow> ('w, 'a) run" where
  "call ev f w = (case f w of (r, w') \<Rightarrow> (r, w', [ev]))"

definition emit :: "event \<Rightarrow> ('w, unit) run" where
  "emit ev w = (Inr (), w, [ev])"

definition andthen :: "('w, 'a) run \<Rightarrow> ('a \<Rightarrow> ('w, 'b) run) \<Rightarrow> ('w, 'b) run" where
  "andthen m f w =
     (case m w of
        (Inl e, w1, t1) \<Rightarrow> (Inl e, w1, t1)
      | (Inr x, w1, t1) \<Rightarrow> (case f x w1 of (r, w2, t2) \<Rightarrow> (r, w2, t1 @ t2)))"

definition outcome :: "'r \<times> 'w \<times> event list \<Rightarrow> 'r" where
  "outcome x = fst x"

definition calls :: "'r \<times> 'w \<times> event list \<Rightarrow> event list" where
  "calls x = snd (snd x)"

section \<open>RunModelResult\<close>

record run_model_result =
  node :: "node option"
  error :: "string option"
  skip :: bool
  fail :: "bool option"
  status :: pyval
  execution_time :: real

definition RunModelResult :: "node option \<Rightarrow> run_model_result" where
  "RunModelResult n =
     \<lparr>node = n, error = None, skip = False, fail = None, status = PyNone, execution_time = 0\<rparr>"

definition errored :: "run_model_result \<Rightarrow> bool" where
  "errored res = (error res \<noteq> None)"

section \<open>BaseRunner\<close>

text \<open>
  A runner instance: the attributes \<open>__init__\<close> sets (\<open>self_node\<close> is \<open>self.node\<close>,
  \<open>self_skip\<close> is \<open>self.skip\<close>) and the class it is an instance of. \<open>BaseRunner\<close> itself
  has no \<open>compile\<close> method and is not instantiated.
\<close>

datatype runner_class = CompileRunner | ModelRunner | TestRunner | ArchiveRunner

record runner =
  runner_class :: runner_class
  self_project :: project
  self_profile :: profile
  self_adapter :: adapter
  self_node :: node
  node_index :: nat
  num_nodes :: nat
  self_skip :: bool

text \<open>
  Modelled from the spec: \<open>dbt.utils.get_materialization\<close> is not in the module; the
  spec's data model keeps the materialization strategy in the node's configuration map.
\<close>

definition get_materialization :: "node \<Rightarrow> string option" where
  "get_materialization n = materialized n"

definition is_model :: "node \<Rightarrow> bool" where
  "is_model n = (resource_type n = Model)"

definition is_ephemeral :: "node \<Rightarrow> bool" where
  "is_ephemeral n = (get_materialization n = Some ''ephemeral'')"

definition is_ephemeral_model :: "node \<Rightarrow> bool" where
  "is_ephemeral_model n = (is_model n \<and> is_ephemeral n)"


text \<open>
  Modelled from the spec: \<open>dbt.utils.is_type\<close> is not in the module; it compares the
  node's resource kind with the given one.
\<close>

definition is_type :: "node \<Rightarrow> node_type \<Rightarrow> bool" where
  "is_type n t = (resource_type n = t)"

section \<open>CompileRunner\<close>

definition node_context :: "('w, 'c) env \<Rightarrow> adapter \<Rightarrow> project \<Rightarrow> node \<Rightarrow> node_context" where
  "node_context env ad proj n =
     \<lparr>nc_run_started_at = run_started_at env, nc_invocation_id = invocation_id env,
      nc_profile = run_environment proj, nc_model_name = name n\<rparr>"

text \<open>
  \<open>inject_runtime_config\<close> receives what the compiler returned, which Python does not
  type: on \<open>None\<close> the call \<open>node.get\<close> raises \<open>AttributeError\<close>.
\<close>

definition inject_runtime_config ::
  "('w, 'c) env \<Rightarrow> adapter \<Rightarrow> project \<Rightarrow> node option \<Rightarrow> ('w, node) run" where
  "inject_runtime_config env ad proj n_opt =
     (case n_opt of
        None \<Rightarrow> throw AttributeError
      | Some n \<Rightarrow>
          andthen (call (Get_rendered (wrapped_sql n) (node_context env ad proj n))
                        (get_rendered env (wrapped_sql n) (node_context env ad proj n)))
            (\<lambda>sql. ret (n\<lparr>wrapped_sql := Some sql\<rparr>)))"

definition compile_node ::
  "('w, 'c) env \<Rightarrow> adapter \<Rightarrow> project \<Rightarrow> node \<Rightarrow> flat_graph \<Rightarrow> ('w, node) run" where
  \<open>compile_node env ad proj n g =
     andthen (call (Compiler_compile_node n) (compiler_compile_node env proj n g))
       (\<lambda>compiled.
     andthen (inject_runtime_config env ad proj compiled)
       (\<lambda>n1.
          case injected_sql n1 of
            None \<Rightarrow> ret n1
          | Some isql \<Rightarrow>
              if \<not> is_type n1 Archive then
                andthen (emit (Logger_debug (''Writing injected SQL for node "'' @ unique_id n1 @ ''"'')))
                  (\<lambda>_.
                andthen (call (Write_node n1 (target_path proj) ''compiled'' isql)
                              (write_node env n1 (target_path proj) ''compiled'' isql))
                  (\<lambda>written_path. ret (n1\<lparr>build_path := Some written_path\<rparr>)))
              else ret n1))\<close>

definition compile :: "('w, 'c) env \<Rightarrow> runner \<Rightarrow> flat_graph \<Rightarrow> ('w, node) run" where
  "compile env r g =
     andthen (emit Compile_called)
       (\<lambda>_. compile_node env (self_adapter r) (self_project r) (self_node r) g)"

definition CompileRunner_execute :: "node \<Rightarrow> ('w, run_model_result) run" where
  "CompileRunner_execute compiled_node = ret (RunModelResult (Some compiled_node))"

section \<open>ModelRunner\<close>

text \<open>
  Modelled from the spec: \<open>dbt.exceptions.missing_materialization\<close> is not in the module.
  The spec (4.3): the execution fails with a MissingMaterialization fault, with the node
  and the adapter kind in the message. The fault carries both. The spec (7) counts a
  defect of the node's own configuration among the node faults, which \<open>safe_run\<close>
  captures.
\<close>

definition missing_materialization :: "node \<Rightarrow> string \<Rightarrow> ('w, 'a) run" where
  "missing_materialization model adapter_kind = throw (MissingMaterialization model adapter_kind)"

definition ModelRunner_execute ::
  "('w, 'c) env \<Rightarrow> runner \<Rightarrow> node \<Rightarrow> 'x \<Rightarrow> flat_graph \<Rightarrow> ('w, run_model_result) run" where
  "ModelRunner_execute env r model existing g =
     andthen (call (Generate_context model) (generate env model (self_project r) g))
       (\<lambda>context.
     andthen (call (Get_materialization_macro (get_materialization model)
                      (adapter_type (self_adapter r)))
                   (get_materialization_macro env g (get_materialization model)
                      (adapter_type (self_adapter r))))
       (\<lambda>materialization_macro.
          case materialization_macro of
            None \<Rightarrow> missing_materialization model (adapter_type (self_adapter r))
          | Some m \<Rightarrow>
              andthen (call (Macro_generator m) (macro_generator env m context))
                (\<lambda>_.
              andthen (call (Load_result ''main'') (load_result env context ''main''))
                (\<lambda>result.
                   case result of
                     None \<Rightarrow> throw AttributeError
                   | Some st \<Rightarrow> ret ((RunModelResult (Some model))\<lparr>status := st\<rparr>)))))"

section \<open>TestRunner\<close>

text \<open>Python's decimal rendering of a non-negative integer, as \<open>str.format\<close> writes it.\<close>

definition digit_char :: "nat \<Rightarrow> char" where
  "digit_char d = char_of (48 + d)"

function str_nat :: "nat \<Rightarrow> string" where
  "str_nat n = (if n < 10 then [digit_char n] else str_nat (n div 10) @ [digit_char (n mod 10)])"
  by pat_completeness auto
termination
  by (relation "measure (\<lambda>n. n)") auto

declare str_nat.simps [simp del]

definition bad_test_message :: "string \<Rightarrow> nat \<Rightarrow> nat \<Rightarrow> string" where
  "bad_test_message test_name num_rows num_cols =
     ''Bad test '' @ test_name @ '': Returned '' @ str_nat num_rows @ '' rows and ''
       @ str_nat num_cols @ '' cols''"

definition execute_test :: "('w, 'c) env \<Rightarrow> runner \<Rightarrow> node \<Rightarrow> ('w, pyval) run" where
  "execute_test env r test =
     andthen (call (Execute_and_fetch (self_profile r) (wrapped_sql test) (name test) True)
                   (execute_and_fetch env (self_profile r) (wrapped_sql test) (name test) True))
       (\<lambda>(res, rows).
          let num_rows = length rows in
          if num_rows > 1 then
            (case rows of
               [] \<Rightarrow> throw IndexError
             | row0 # _ \<Rightarrow>
                 let num_cols = length row0 in
                 throw (RuntimeError (bad_test_message (name test) num_rows num_cols)))
          else
            (case rows of
               [] \<Rightarrow> throw IndexError
             | row0 # _ \<Rightarrow>
                 (case row0 of
                    [] \<Rightarrow> throw IndexError
                  | cell # _ \<Rightarrow> ret cell)))"

definition TestRunner_execute ::
  "('w, 'c) env \<Rightarrow> runner \<Rightarrow> node \<Rightarrow> 'x \<Rightarrow> flat_graph \<Rightarrow> ('w, run_model_result) run" where
  "TestRunner_execute env r test existing g =
     andthen (execute_test env r test)
       (\<lambda>st. ret ((RunModelResult (Some test))\<lparr>status := st\<rparr>))"

section \<open>Dispatch on the runner's class\<close>

text \<open>\<open>ArchiveRunner\<close> inherits \<open>execute\<close> from \<open>ModelRunner\<close>.\<close>

definition execute ::
  "('w, 'c) env \<Rightarrow> runner \<Rightarrow> node \<Rightarrow> 'x \<Rightarrow> flat_graph \<Rightarrow> ('w, run_model_result) run" where
  "execute env r compiled_node existing g =
     andthen (emit (Execute_called compiled_node))
       (\<lambda>_. case runner_class r of
               CompileRunner \<Rightarrow> CompileRunner_execute compiled_node
             | ModelRunner \<Rightarrow> ModelRunner_execute env r compiled_node existing g
             | TestRunner \<Rightarrow> TestRunner_execute env r compiled_node existing g
             | ArchiveRunner \<Rightarrow> ModelRunner_execute env r compiled_node existing g)"

definition run ::
  "('w, 'c) env \<Rightarrow> runner \<Rightarrow> node \<Rightarrow> 'x \<Rightarrow> flat_graph \<Rightarrow> ('w, run_model_result) run" where
  "run env r compiled_node existing g =
     andthen (emit (Run_called compiled_node))
       (\<lambda>_. execute env r compiled_node existing g)"


section \<open>BaseRunner.safe\_run\<close>

definition INTERNAL_ERROR_STRING :: string where
  "INTERNAL_ERROR_STRING =
     ''This is an error in dbt. Please try again. If the error persists, open an issue at https://github.com/fishtown-analytics/dbt''"

text \<open>Python's \<open>str.strip()\<close> and the rendering of an optional value by \<open>str.format\<close>.\<close>

definition is_space :: "char \<Rightarrow> bool" where
  "is_space c = (c = CHR '' '' \<or> c = CHR 0x0A \<or> c = CHR 0x09 \<or> c = CHR 0x0D
                 \<or> c = CHR 0x0B \<or> c = CHR 0x0C)"

definition strip :: "string \<Rightarrow> string" where
  "strip s = rev (dropWhile is_space (rev (dropWhile is_space s)))"

definition format_opt :: "string option \<Rightarrow> string" where
  "format_opt v = (case v of None \<Rightarrow> ''None'' | Some s \<Rightarrow> s)"

text \<open>
  \<open>catchable\<close> is \<open>isinstance(e, catchable_errors)\<close>, \<open>is_internal\<close> is
  \<open>isinstance(e, InternalException)\<close> and \<open>is_exception\<close> is \<open>isinstance(e, Exception)\<close>,
  in the order of the \<open>except\<close> clauses.
\<close>

fun catchable :: "fault \<Rightarrow> bool" where
  "catchable (CompilationException m n) = True"
| "catchable (RuntimeException m n) = True"
| "catchable (MissingMaterialization n k) = True"
| "catchable e = False"

fun is_internal :: "fault \<Rightarrow> bool" where
  "is_internal (InternalException m) = True"
| "is_internal e = False"

fun is_exception :: "fault \<Rightarrow> bool" where
  "is_exception (NonException m) = False"
| "is_exception e = True"

text \<open>\<open>if e.node is None: e.node = result.node\<close>\<close>

fun default_node :: "node option \<Rightarrow> fault \<Rightarrow> fault" where
  "default_node n (CompilationException m None) = CompilationException m n"
| "default_node n (RuntimeException m None) = RuntimeException m n"
| "default_node n e = e"

text \<open>
  The \<open>try\<close> block. It leaves the local variable \<open>result\<close> and, when it raised, the
  fault: \<open>result\<close> is assigned by \<open>result.node = compiled_node\<close> and by the return of
  \<open>self.run\<close>, and not when \<open>self.run\<close> raises.
\<close>

definition safe_run_try ::
  "('w, 'c) env \<Rightarrow> runner \<Rightarrow> flat_graph \<Rightarrow> 'x \<Rightarrow> run_model_result \<Rightarrow> 'w
     \<Rightarrow> (fault option \<times> run_model_result) \<times> 'w \<times> event list" where
  "safe_run_try env r g existing result w =
     (case compile env r g w of
        (Inl e, w1, t1) \<Rightarrow> ((Some e, result), w1, t1)
      | (Inr compiled_node, w1, t1) \<Rightarrow>
          let result1 = result\<lparr>node := Some compiled_node\<rparr> in
          if \<not> is_ephemeral_model (self_node r) then
            (case run env r compiled_node existing g w1 of
               (Inl e, w2, t2) \<Rightarrow> ((Some e, result1), w2, t1 @ t2)
             | (Inr res, w2, t2) \<Rightarrow> ((None, res), w2, t1 @ t2))
          else ((None, result1), w1, t1))"

text \<open>The \<open>except\<close> clauses, for a fault \<open>e\<close> of the \<open>try\<close> block.\<close>

definition safe_run_except ::
  "('w, 'c) env \<Rightarrow> runner \<Rightarrow> fault \<Rightarrow> run_model_result \<Rightarrow> ('w, run_model_result) run" where
  "safe_run_except env r e result =
     (if catchable e then
        ret (result\<lparr>error := Some (to_string env (default_node (node result) e)),
                    status := PyStr ''ERROR''\<rparr>)
      else if is_internal e then
        (let prefix = ''Internal error executing '' @ format_opt (build_path (self_node r));
             err = red env prefix @ [CHR 0x0A] @ strip (exc_str env e) @ [CHR 0x0A, CHR 0x0A]
                     @ INTERNAL_ERROR_STRING
         in andthen (emit (Logger_debug err))
              (\<lambda>_. ret (result\<lparr>error := Some (to_string env e), status := PyStr ''ERROR''\<rparr>)))
      else if is_exception e then
        (let prefix = ''Unhandled error while executing ''
                        @ format_opt (build_path (self_node r));
             err = red env prefix @ [CHR 0x0A] @ strip (exc_str env e)
         in andthen (emit (Logger_debug err)) (\<lambda>_. throw e))
      else throw e)"

text \<open>
  \<open>safe_run\<close>: the \<open>try\<close> block with its \<open>except\<close> clauses (\<open>safe_run_attempt\<close>), then
  the \<open>finally\<close> clause, and the two statements after it when no fault is pending. A
  fault of the \<open>finally\<close> clause replaces a pending one.
\<close>

definition safe_run_attempt ::
  "('w, 'c) env \<Rightarrow> runner \<Rightarrow> flat_graph \<Rightarrow> 'x \<Rightarrow> run_model_result
     \<Rightarrow> ('w, run_model_result) run" where
  "safe_run_attempt env r g existing result w =
     (case safe_run_try env r g existing result w of
        ((None, res), w1, t1) \<Rightarrow> (Inr res, w1, t1)
      | ((Some e, res), w1, t1) \<Rightarrow>
          (case safe_run_except env r e res w1 of (x, w2, t2) \<Rightarrow> (x, w2, t1 @ t2)))"

definition safe_run ::
  "('w, 'c) env \<Rightarrow> runner \<Rightarrow> flat_graph \<Rightarrow> 'x \<Rightarrow> ('w, run_model_result) run" where
  "safe_run env r g existing w0 =
     (let result = RunModelResult (Some (self_node r)) in
      case time_time env w0 of (started, w1) \<Rightarrow>
      case safe_run_attempt env r g existing result w1 of (tried, w2, t2) \<Rightarrow>
      let node_name = name (self_node r) in
      case call (Release_connection (self_profile r) node_name)
                (release_connection env (self_profile r) node_name) w2
      of (released, w3, t3) \<Rightarrow>
        (case released of
           Inl e \<Rightarrow> (Inl e, w3, t2 @ t3)
         | Inr u \<Rightarrow>
             (case tried of
                Inl e \<Rightarrow> (Inl e, w3, t2 @ t3)
              | Inr res \<Rightarrow>
                  (case time_time env w3 of (now, w4) \<Rightarrow>
                     (Inr (res\<lparr>execution_time := now - started\<rparr>), w4, t2 @ t3)))))"

definition on_skip :: "runner \<Rightarrow> ('w, run_model_result) run" where
  "on_skip r =
     (let schema_name = schema (self_node r);
          node_name = name (self_node r)
      in andthen (if \<not> is_ephemeral_model (self_node r)
                  then emit (Print_skip_line (self_node r) schema_name node_name
                               (node_index r) (num_nodes r))
                  else ret ())
           (\<lambda>_. ret ((RunModelResult (Some (self_node r)))\<lparr>skip := True\<rparr>)))"

definition do_skip :: "runner \<Rightarrow> runner" where
  "do_skip r = r\<lparr>self_skip := True\<rparr>"

section \<open>Schemas and hooks of the batch\<close>

text \<open>
  A Python set of schema names is the list of its elements, without repetition, in the
  order they were added; Python leaves the order of iteration open, and no statement
  below depends on it.
\<close>

definition set_add :: "string list \<Rightarrow> string \<Rightarrow> string list" where
  "set_add schemas s = (if s \<in> set schemas then schemas else schemas @ [s])"

definition set_minus :: "string list \<Rightarrow> string list \<Rightarrow> string list" where
  "set_minus xs ys = filter (\<lambda>s. s \<notin> set ys) xs"

definition get_model_schemas :: "flat_graph \<Rightarrow> fault + string list" where
  "get_model_schemas g =
     (case nodes g of
        None \<Rightarrow> Inl (KeyError ''nodes'')
      | Some ns \<Rightarrow>
          Inr (foldl (\<lambda>schemas n. if is_model n \<and> \<not> is_ephemeral n
                                   then set_add schemas (schema n) else schemas)
                 [] (map snd ns)))"

fun create_each :: "('w, 'c) env \<Rightarrow> profile \<Rightarrow> string list \<Rightarrow> ('w, unit) run" where
  "create_each env p [] = ret ()"
| "create_each env p (s # ss) =
     andthen (call (Create_schema p s) (create_schema env p s)) (\<lambda>_. create_each env p ss)"

definition create_schemas ::
  "('w, 'c) env \<Rightarrow> project \<Rightarrow> adapter \<Rightarrow> flat_graph \<Rightarrow> ('w, unit) run" where
  "create_schemas env proj ad g =
     (let p = run_environment proj in
      case get_model_schemas g of
        Inl e \<Rightarrow> throw e
      | Inr required_schemas \<Rightarrow>
          andthen (call (Get_existing_schemas p) (get_existing_schemas env p))
            (\<lambda>existing_schemas.
               create_each env p (set_minus required_schemas (remdups existing_schemas))))"

text \<open>The first loop of \<open>run_hooks\<close>, over the hook nodes.\<close>

fun compile_hooks ::
  "('w, 'c) env \<Rightarrow> adapter \<Rightarrow> project \<Rightarrow> flat_graph \<Rightarrow> node list \<Rightarrow> ('w, hook list) run" where
  "compile_hooks env ad proj g [] = ret []"
| "compile_hooks env ad proj g (h # hs) =
     andthen (compile_node env ad proj h g)
       (\<lambda>compiled.
     andthen (call (Get_hook_dict (wrapped_sql compiled))
                   (get_hook_dict env (wrapped_sql compiled)))
       (\<lambda>hook_dict.
     andthen (compile_hooks env ad proj g hs)
       (\<lambda>compiled_hooks. ret (hook_dict # compiled_hooks))))"

text \<open>The second loop of \<open>run_hooks\<close>, over the compiled hooks.\<close>

fun execute_hooks :: "('w, 'c) env \<Rightarrow> profile \<Rightarrow> string \<Rightarrow> hook list \<Rightarrow> ('w, unit) run" where
  "execute_hooks env p conn_name [] = ret ()"
| "execute_hooks env p conn_name (h # hs) =
     andthen (if strict_mode env then call (Validate_hook h) (validate_hook env h) else ret ())
       (\<lambda>_.
     let sql = (case hook_sql h of None \<Rightarrow> [] | Some q \<Rightarrow> q) in
     andthen (call (Execute_one p sql conn_name False) (execute_one env p sql conn_name False))
       (\<lambda>_.
     andthen (call (Release_connection p conn_name) (release_connection env p conn_name))
       (\<lambda>_. execute_hooks env p conn_name hs)))"

definition run_hooks ::
  "('w, 'c) env \<Rightarrow> project \<Rightarrow> adapter \<Rightarrow> flat_graph \<Rightarrow> run_hook_type \<Rightarrow> ('w, unit) run" where
  "run_hooks env proj ad g hook_type =
     (let p = run_environment proj;
          ns = (case nodes g of None \<Rightarrow> [] | Some kvs \<Rightarrow> map snd kvs)
      in andthen (call (Get_nodes_by_tags ns hook_type Operation)
                       (get_nodes_by_tags env ns hook_type Operation))
           (\<lambda>hooks.
         andthen (call (Clear_transaction p) (clear_transaction env p))
           (\<lambda>conn_name.
         andthen (compile_hooks env ad proj g hooks)
           (\<lambda>compiled_hooks. execute_hooks env p conn_name compiled_hooks))))"


section \<open>Observations on the recorded calls\<close>

definition world :: "'r \<times> 'w \<times> event list \<Rightarrow> 'w" where
  "world x = fst (snd x)"

fun is_release :: "event \<Rightarrow> bool" where
  "is_release (Release_connection p n) = True"
| "is_release e = False"

fun is_run_or_execute :: "event \<Rightarrow> bool" where
  "is_run_or_execute (Run_called n) = True"
| "is_run_or_execute (Execute_called n) = True"
| "is_run_or_execute e = False"

fun is_execute_one :: "event \<Rightarrow> bool" where
  "is_execute_one (Execute_one p q c b) = True"
| "is_execute_one e = False"

text \<open>The schemas of the \<open>create_schema\<close> calls, in order.\<close>

fun created_schemas :: "event list \<Rightarrow> string list" where
  "created_schemas [] = []"
| "created_schemas (Create_schema p s # es) = s # created_schemas es"
| "created_schemas (e # es) = created_schemas es"

fun is_execute_or_release :: "event \<Rightarrow> bool" where
  "is_execute_or_release (Execute_one p q c b) = True"
| "is_execute_or_release (Release_connection p n) = True"
| "is_execute_or_release e = False"

text \<open>\<open>no_auto_begin e\<close>: if \<open>e\<close> is an \<open>execute_one\<close> call, it passes \<open>auto_begin=False\<close>.\<close>

fun no_auto_begin :: "event \<Rightarrow> bool" where
  "no_auto_begin (Execute_one p q c b) = (b = False)"
| "no_auto_begin e = True"

text \<open>The release of the connection an \<open>execute_one\<close> call ran on.\<close>

fun release_for :: "event \<Rightarrow> event" where
  "release_for (Execute_one p q c b) = Release_connection p c"
| "release_for e = e"

text \<open>
  \<open>released_per_statement es\<close>, for the \<open>execute_one\<close> and \<open>release_connection\<close> calls
  \<open>es\<close> of a run: they alternate, each statement directly followed by the release of its
  connection; only the last statement may lack its release (when a call raised).
\<close>

fun released_per_statement :: "event list \<Rightarrow> bool" where
  "released_per_statement [] = True"
| "released_per_statement [e] = is_execute_one e"
| "released_per_statement (e1 # e2 # es) =
     (is_execute_one e1 \<and> e2 = release_for e1 \<and> released_per_statement es)"


text \<open>
  \<open>calls_sat P m\<close>: every call \<open>m\<close> makes, from any world, satisfies \<open>P\<close>.
\<close>

definition calls_sat :: "(event \<Rightarrow> bool) \<Rightarrow> ('w, 'a) run \<Rightarrow> bool" where
  "calls_sat P m = (\<forall>w. list_all P (calls (m w)))"

section \<open>A concrete graph and concrete collaborators\<close>

definition model_a :: node where
  "model_a = \<lparr>unique_id = ''model.shop.a'', resource_type = Model, name = ''a'',
     schema = ''analytics'', wrapped_sql = Some ''select 1'', injected_sql = None,
     build_path = None, materialized = Some ''table'', tags = []\<rparr>"

definition model_b :: node where
  "model_b = \<lparr>unique_id = ''model.shop.b'', resource_type = Model, name = ''b'',
     schema = ''scratch'', wrapped_sql = Some ''select 2'', injected_sql = None,
     build_path = None, materialized = Some ''ephemeral'', tags = []\<rparr>"

definition model_c :: node where
  "model_c = \<lparr>unique_id = ''model.shop.c'', resource_type = Model, name = ''c'',
     schema = ''marts'', wrapped_sql = Some ''select 3'', injected_sql = None,
     build_path = None, materialized = Some ''view'', tags = []\<rparr>"

definition test_t :: node where
  "test_t = \<lparr>unique_id = ''test.shop.t'', resource_type = Test, name = ''t'',
     schema = ''analytics'', wrapped_sql = Some ''select count(*) from a'',
     injected_sql = None, build_path = None, materialized = None, tags = []\<rparr>"

definition hook_1 :: node where
  "hook_1 = \<lparr>unique_id = ''operation.shop.h1'', resource_type = Operation, name = ''h1'',
     schema = ''analytics'', wrapped_sql = Some ''grant 1'', injected_sql = None,
     build_path = None, materialized = None, tags = [''on-run-start'']\<rparr>"

definition hook_2 :: node where
  "hook_2 = \<lparr>unique_id = ''operation.shop.h2'', resource_type = Operation, name = ''h2'',
     schema = ''analytics'', wrapped_sql = Some ''grant 2'', injected_sql = None,
     build_path = None, materialized = None, tags = [''on-run-start'']\<rparr>"

definition shop_graph :: flat_graph where
  "shop_graph = \<lparr>nodes = Some [(''model.shop.a'', model_a), (''model.shop.b'', model_b),
     (''model.shop.c'', model_c), (''test.shop.t'', test_t),
     (''operation.shop.h1'', hook_1), (''operation.shop.h2'', hook_2)], macros = []\<rparr>"

definition shop_project :: project where
  "shop_project = \<lparr>run_environment = ''dev'', target_path = Some ''target''\<rparr>"

definition postgres :: adapter where
  "postgres = \<lparr>adapter_type = ''postgres''\<rparr>"

definition runner_of :: "runner_class \<Rightarrow> node \<Rightarrow> runner" where
  "runner_of c n = \<lparr>runner_class = c, self_project = shop_project, self_profile = ''dev'',
     self_adapter = postgres, self_node = n, node_index = 1, num_nodes = 4,
     self_skip = False\<rparr>"

fun fault_text :: "fault \<Rightarrow> string" where
  "fault_text (CompilationException m n) =
     ''Compilation Error in '' @ (case n of None \<Rightarrow> ''?'' | Some x \<Rightarrow> name x) @ '': '' @ m"
| "fault_text (RuntimeException m n) =
     ''Runtime Error in '' @ (case n of None \<Rightarrow> ''?'' | Some x \<Rightarrow> name x) @ '': '' @ m"
| "fault_text (MissingMaterialization n k) = ''No materialization for '' @ name n @ '' on '' @ k"
| "fault_text (InternalException m) = m"
| "fault_text (RuntimeError m) = m"
| "fault_text IndexError = ''index out of range''"
| "fault_text (KeyError k) = k"
| "fault_text AttributeError = ''NoneType has no attribute''"
| "fault_text (OtherException m) = m"
| "fault_text (NonException m) = m"

fun hook_tag :: "run_hook_type \<Rightarrow> string" where
  "hook_tag Start = ''on-run-start''"
| "hook_tag End = ''on-run-end''"

text \<open>
  Collaborators that always succeed, on a world that only counts the readings of the
  clock: the compiler fills in the injected SQL, the registry knows the materialization
  \<open>table\<close> only, the macro deposits the status \<open>CREATE TABLE\<close>, the schema \<open>analytics\<close>
  exists, and a test query fetches one row holding \<open>0\<close>.
\<close>

definition shop_env :: "(nat, nat) env" where
  "shop_env = \<lparr>
     time_time = (\<lambda>w. (real w, Suc w)),
     strict_mode = True,
     run_started_at = ''2017-06-01'',
     invocation_id = ''run-1'',
     red = (\<lambda>s. s),
     exc_str = fault_text,
     to_string = fault_text,
     compiler_compile_node = (\<lambda>proj n g w. (Inr (Some (n\<lparr>injected_sql := wrapped_sql n\<rparr>)), w)),
     get_rendered = (\<lambda>q ctx w. (Inr (format_opt q), w)),
     write_node = (\<lambda>n dir sub q w. (Inr (format_opt dir @ ''/'' @ sub @ ''/'' @ name n), w)),
     get_nodes_by_tags =
       (\<lambda>ns t k w. (Inr (filter (\<lambda>n. resource_type n = k \<and> hook_tag t \<in> set (tags n)) ns), w)),
     get_hook_dict = (\<lambda>q w. (Inr \<lparr>hook_sql = q, hook_transaction = True\<rparr>, w)),
     validate_hook = (\<lambda>h w. (Inr (), w)),
     generate = (\<lambda>n proj g w. (Inr 0, w)),
     get_materialization_macro =
       (\<lambda>g m k w. (Inr (if m = Some ''table'' then Some ''materialization_table_default''
                         else None), w)),
     macro_generator = (\<lambda>m c w. (Inr (), w)),
     load_result = (\<lambda>c k w. (Inr (Some (PyStr ''CREATE TABLE'')), w)),
     release_connection = (\<lambda>p n w. (Inr (), w)),
     clear_transaction = (\<lambda>p w. (Inr ''master'', w)),
     execute_one = (\<lambda>p q c b w. (Inr (), w)),
     execute_and_fetch = (\<lambda>p q n b w. (Inr (''SELECT 1'', [[PyInt 0]]), w)),
     get_existing_schemas = (\<lambda>p w. (Inr [''analytics''], w)),
     create_schema = (\<lambda>p s w. (Inr (), w))\<rparr>"

text \<open>The same, with a compiler that raises a compilation fault carrying no node.\<close>

definition broken_compile_env :: "(nat, nat) env" where
  "broken_compile_env = shop_env\<lparr>compiler_compile_node :=
     (\<lambda>proj n g w. (Inl (CompilationException ''syntax error'' None), w))\<rparr>"

text \<open>The same as \<open>shop_env\<close>, with a test query that fetches the given rows.\<close>

definition fetch_env :: "pyval list list \<Rightarrow> (nat, nat) env" where
  "fetch_env rows = shop_env\<lparr>execute_and_fetch :=
     (\<lambda>p q n b w. (Inr (''SELECT'', rows), w))\<rparr>"


text \<open>A graph without nodes.\<close>

definition empty_graph :: flat_graph where
  "empty_graph = \<lparr>nodes = Some [], macros = []\<rparr>"

section \<open>Lemmas on the recorded calls\<close>

lemma calls_ret: "calls (ret x w) = []" by (simp add: calls_def ret_def)
lemma calls_throw: "calls (throw e w) = []" by (simp add: calls_def throw_def)
lemma calls_emit: "calls (emit ev w) = [ev]" by (simp add: calls_def emit_def)
lemma calls_call: "calls (call ev f w) = [ev]" by (simp add: calls_def call_def split: prod.splits)

lemma calls_sat_ret: "calls_sat P (ret x)" by (simp add: calls_sat_def calls_ret)
lemma calls_sat_throw: "calls_sat P (throw e)" by (simp add: calls_sat_def calls_throw)
lemma calls_sat_emit: "P ev \<Longrightarrow> calls_sat P (emit ev)" by (simp add: calls_sat_def calls_emit)
lemma calls_sat_call: "P ev \<Longrightarrow> calls_sat P (call ev f)" by (simp add: calls_sat_def calls_call)

lemma calls_sat_andthen:
  assumes "calls_sat P m" and "\<And>x. calls_sat P (f x)"
  shows "calls_sat P (andthen m f)"
proof -
  have "list_all P (calls (andthen m f w))" for w
  proof (cases "m w")
    case (fields out w1 t1)
    from assms(1) have m: "list_all P t1"
      using fields by (auto simp: calls_sat_def calls_def dest: spec [of _ w])
    show ?thesis
    proof (cases out)
      case (Inl e)
      with fields m show ?thesis by (simp add: andthen_def calls_def)
    next
      case (Inr x)
      from assms(2) [of x] have "list_all P (calls (f x w1))"
        by (simp add: calls_sat_def)
      with fields m Inr show ?thesis
        by (auto simp: andthen_def calls_def split: prod.splits)
    qed
  qed
  then show ?thesis by (simp add: calls_sat_def)
qed

lemmas calls_sat_intros =
  calls_sat_ret calls_sat_throw calls_sat_emit calls_sat_call calls_sat_andthen

lemma calls_satD: "calls_sat P m \<Longrightarrow> list_all P (calls (m w))"
  by (simp add: calls_sat_def)

lemma calls_sat_compile_node:
  assumes "P (Compiler_compile_node n)" "\<And>q c. P (Get_rendered q c)" "\<And>s. P (Logger_debug s)"
    "\<And>n d s q. P (Write_node n d s q)"
  shows "calls_sat P (compile_node env ad proj n g)"
  unfolding compile_node_def inject_runtime_config_def
  by (auto intro!: calls_sat_intros assms split: option.splits)

lemma compile_no_release_no_execute:
  "calls_sat (\<lambda>e. \<not> is_release e \<and> \<not> is_run_or_execute e) (compile env r g)"
  unfolding compile_def
  by (intro calls_sat_andthen calls_sat_emit calls_sat_compile_node) simp_all

lemma compile_calls_head: "\<exists>t. calls (compile env r g w) = Compile_called # t"
  by (simp add: compile_def andthen_def emit_def calls_def split: prod.splits sum.splits)

lemma execute_test_no_release: "calls_sat (\<lambda>e. \<not> is_release e) (execute_test env r n)"
  unfolding execute_test_def
  by (auto intro!: calls_sat_intros split: list.splits simp: Let_def)

lemma ModelRunner_execute_no_release:
  "calls_sat (\<lambda>e. \<not> is_release e) (ModelRunner_execute env r n ex g)"
  unfolding ModelRunner_execute_def missing_materialization_def
  by (auto intro!: calls_sat_intros split: option.splits)

lemma run_no_release: "calls_sat (\<lambda>e. \<not> is_release e) (run env r n ex g)"
  unfolding run_def execute_def TestRunner_execute_def CompileRunner_execute_def
  by (cases "runner_class r")
     (auto intro!: calls_sat_intros execute_test_no_release ModelRunner_execute_no_release)

lemma safe_run_except_no_release:
  "calls_sat (\<lambda>e. \<not> is_release e \<and> \<not> is_run_or_execute e) (safe_run_except env r e res)"
  unfolding safe_run_except_def
  by (auto intro!: calls_sat_intros simp: Let_def)

lemma list_all_weaken: "list_all P xs \<Longrightarrow> (\<And>x. P x \<Longrightarrow> Q x) \<Longrightarrow> list_all Q xs"
  by (induction xs) auto

lemma calls_satE: "calls_sat P m \<Longrightarrow> m w = (x, w', t) \<Longrightarrow> list_all P t"
  by (auto simp: calls_sat_def calls_def dest: spec [of _ w])

lemma safe_run_attempt_no_release:
  "list_all (\<lambda>e. \<not> is_release e) (calls (safe_run_attempt env r g ex res w))"
proof -
  have c: "list_all (\<lambda>e. \<not> is_release e) t" if "compile env r g w = (x, w', t)" for x w' t
    by (rule list_all_weaken [OF calls_satE [OF compile_no_release_no_execute that]]) simp
  have x: "list_all (\<lambda>e. \<not> is_release e) t"
    if "safe_run_except env r e res' w' = (x, w'', t)" for e res' w' x w'' t
    by (rule list_all_weaken [OF calls_satE [OF safe_run_except_no_release that]]) simp
  have rn: "list_all (\<lambda>e. \<not> is_release e) t" if "run env r n ex g w' = (x, w'', t)" for n w' x w'' t
    by (rule calls_satE [OF run_no_release that])
  show ?thesis
    by (auto simp: safe_run_attempt_def safe_run_try_def calls_def Let_def
        split: prod.splits sum.splits option.splits if_splits intro: c x rn)
qed

lemma safe_run_calls:
  "calls (safe_run env r g ex w) =
     calls (safe_run_attempt env r g ex (RunModelResult (Some (self_node r)))
              (snd (time_time env w)))
     @ [Release_connection (self_profile r) (name (self_node r))]"
  by (simp add: safe_run_def call_def calls_def Let_def split: prod.splits sum.splits)

section \<open>Lemmas on the outcome of safe\_run\<close>

lemma run_result:
  assumes "run env r n ex g w = (Inr res, w', t)"
  shows "node res = Some n \<and> skip res = False \<and> error res = None"
  using assms
  by (cases "runner_class r")
     (auto simp: run_def execute_def andthen_def emit_def ret_def throw_def call_def
        CompileRunner_execute_def ModelRunner_execute_def TestRunner_execute_def
        missing_materialization_def RunModelResult_def
        split: prod.splits sum.splits option.splits)

lemma safe_run_except_result:
  assumes "safe_run_except env r e res w = (Inr res', w', t)"
  shows "node res' = node res \<and> skip res' = skip res"
  using assms
  by (auto simp: safe_run_except_def andthen_def emit_def ret_def throw_def Let_def
      split: if_splits prod.splits sum.splits)

lemma safe_run_try_result:
  assumes "safe_run_try env r g ex (RunModelResult (Some n)) w = ((e, res), w', t)"
  shows "node res \<noteq> None \<and> skip res = False"
  using assms
  by (auto simp: safe_run_try_def Let_def RunModelResult_def
      split: prod.splits sum.splits if_splits dest: run_result)

lemma safe_run_attempt_result:
  assumes "safe_run_attempt env r g ex (RunModelResult (Some n)) w = (Inr res, w', t)"
  shows "node res \<noteq> None \<and> skip res = False"
  using assms
  by (auto simp: safe_run_attempt_def
      split: prod.splits option.splits dest!: safe_run_try_result safe_run_except_result)

lemma safe_run_result:
  assumes "outcome (safe_run env r g ex w) = Inr res"
  shows "node res \<noteq> None \<and> skip res = False"
  using assms
  by (auto simp: safe_run_def outcome_def Let_def call_def
      split: prod.splits sum.splits dest!: safe_run_attempt_result)

lemma safe_run_normal:
  assumes a: "safe_run_attempt env r g ex (RunModelResult (Some (self_node r)))
                (snd (time_time env w)) = (Inr res, w2, t)"
    and rel: "release_connection env (self_profile r) (name (self_node r)) w2 = (Inr (), w3)"
  shows "outcome (safe_run env r g ex w) =
           Inr (res\<lparr>execution_time := fst (time_time env w3) - fst (time_time env w)\<rparr>)"
proof -
  obtain started w1 where tm: "time_time env w = (started, w1)"
    by (cases "time_time env w")
  obtain now w4 where tm': "time_time env w3 = (now, w4)"
    by (cases "time_time env w3")
  from a tm have "safe_run_attempt env r g ex (RunModelResult (Some (self_node r))) w1
                    = (Inr res, w2, t)" by simp
  with tm tm' rel show ?thesis
    by (simp add: safe_run_def outcome_def call_def Let_def)
qed

lemma safe_run_compile_fault:
  assumes "catchable e"
    and "compile env r g (snd (time_time env w)) = (Inl e, w2, t)"
    and "release_connection env (self_profile r) (name (self_node r)) w2 = (Inr (), w3)"
  shows "outcome (safe_run env r g ex w) =
           Inr ((RunModelResult (Some (self_node r)))
                  \<lparr>error := Some (to_string env (default_node (Some (self_node r)) e)),
                   status := PyStr ''ERROR'',
                   execution_time := fst (time_time env w3) - fst (time_time env w)\<rparr>)"
proof -
  have "safe_run_attempt env r g ex (RunModelResult (Some (self_node r)))
          (snd (time_time env w))
        = (Inr ((RunModelResult (Some (self_node r)))
                  \<lparr>error := Some (to_string env (default_node (Some (self_node r)) e)),
                   status := PyStr ''ERROR''\<rparr>), w2, t)"
    using assms(1,2)
    by (simp add: safe_run_attempt_def safe_run_try_def safe_run_except_def ret_def
        RunModelResult_def)
  from safe_run_normal [OF this assms(3)] show ?thesis by simp
qed

lemma safe_run_run_fault:
  assumes "catchable e"
    and "compile env r g (snd (time_time env w)) = (Inr cn, w1, t1)"
    and "\<not> is_ephemeral_model (self_node r)"
    and "run env r cn ex g w1 = (Inl e, w2, t)"
    and "release_connection env (self_profile r) (name (self_node r)) w2 = (Inr (), w3)"
  shows "outcome (safe_run env r g ex w) =
           Inr ((RunModelResult (Some cn))
                  \<lparr>error := Some (to_string env (default_node (Some cn) e)),
                   status := PyStr ''ERROR'',
                   execution_time := fst (time_time env w3) - fst (time_time env w)\<rparr>)"
proof -
  have "safe_run_attempt env r g ex (RunModelResult (Some (self_node r)))
          (snd (time_time env w))
        = (Inr ((RunModelResult (Some cn))
                  \<lparr>error := Some (to_string env (default_node (Some cn) e)),
                   status := PyStr ''ERROR''\<rparr>), w2, t1 @ t)"
    using assms(1-4)
    by (simp add: safe_run_attempt_def safe_run_try_def safe_run_except_def ret_def
        RunModelResult_def)
  from safe_run_normal [OF this assms(5)] show ?thesis by simp
qed

lemma safe_run_ephemeral:
  assumes "is_ephemeral_model (self_node r)"
    and "compile env r g (snd (time_time env w)) = (Inr cn, w2, t)"
    and "release_connection env (self_profile r) (name (self_node r)) w2 = (Inr (), w3)"
  shows "outcome (safe_run env r g ex w) =
           Inr ((RunModelResult (Some cn))
                  \<lparr>execution_time := fst (time_time env w3) - fst (time_time env w)\<rparr>)"
proof -
  have "safe_run_attempt env r g ex (RunModelResult (Some (self_node r)))
          (snd (time_time env w))
        = (Inr (RunModelResult (Some cn)), w2, t)"
    using assms(1,2)
    by (simp add: safe_run_attempt_def safe_run_try_def RunModelResult_def)
  from safe_run_normal [OF this assms(3)] show ?thesis by simp
qed

lemma safe_run_ephemeral_calls:
  assumes "is_ephemeral_model (self_node r)"
  shows "Compile_called \<in> set (calls (safe_run env r g ex w))
         \<and> \<not> list_ex is_run_or_execute (calls (safe_run env r g ex w))"
proof -
  let ?w1 = "snd (time_time env w)"
  let ?a = "safe_run_attempt env r g ex (RunModelResult (Some (self_node r))) ?w1"
  obtain t where t: "calls (compile env r g ?w1) = Compile_called # t"
    using compile_calls_head [of env r g ?w1] by auto
  have c: "list_all (\<lambda>e. \<not> is_run_or_execute e) (calls (compile env r g ?w1))"
    by (rule list_all_weaken [OF calls_satD [OF compile_no_release_no_execute]]) simp
  have x: "list_all (\<lambda>e. \<not> is_run_or_execute e) t'"
    if "safe_run_except env r e res' w' = (x, w'', t')" for e res' w' x w'' t'
    by (rule list_all_weaken [OF calls_satE [OF safe_run_except_no_release that]]) simp
  have 1: "\<exists>t'. calls ?a = calls (compile env r g ?w1) @ t'
                \<and> list_all (\<lambda>e. \<not> is_run_or_execute e) t'"
    using assms
    by (auto simp: safe_run_attempt_def safe_run_try_def calls_def Let_def
        split: prod.splits sum.splits option.splits intro: x)
  then obtain t' where t': "calls ?a = calls (compile env r g ?w1) @ t'"
     "list_all (\<lambda>e. \<not> is_run_or_execute e) t'" by blast
  show ?thesis
    using t t' c by (auto simp: safe_run_calls list_ex_iff list_all_iff)
qed

lemma safe_run_InrD:
  assumes "outcome (safe_run env r g ex w) = Inr res"
  shows "\<exists>res0 w2 t x.
           safe_run_attempt env r g ex (RunModelResult (Some (self_node r)))
             (snd (time_time env w)) = (Inr res0, w2, t)
           \<and> res = res0\<lparr>execution_time := x\<rparr>"
  using assms
  by (auto simp: safe_run_def outcome_def Let_def call_def split: prod.splits sum.splits)

text \<open>The definitions a concrete run unfolds.\<close>

lemmas model_defs = model_a_def model_b_def model_c_def test_t_def hook_1_def hook_2_def
  shop_graph_def shop_project_def postgres_def runner_of_def shop_env_def
  broken_compile_env_def fetch_env_def

lemmas run_defs = ret_def throw_def call_def emit_def andthen_def outcome_def calls_def
  RunModelResult_def get_materialization_def is_model_def is_ephemeral_def
  is_ephemeral_model_def is_type_def node_context_def inject_runtime_config_def
  compile_node_def compile_def CompileRunner_execute_def missing_materialization_def
  ModelRunner_execute_def execute_test_def TestRunner_execute_def execute_def run_def
  format_opt_def


lemmas safe_run_defs = safe_run_def safe_run_attempt_def safe_run_try_def
  safe_run_except_def on_skip_def Let_def

section \<open>Connection release in safe\_run\<close>

text \<open>
  Claim C2. On every exit path of \<open>safe_run\<close> (normal return, catchable fault, internal
  fault, and the fatal path that logs and re-raises), \<open>adapter.release_connection\<close> is
  called exactly once, for the runner's profile and the node's name, and it is the last
  call \<open>safe_run\<close> makes: a re-raised fault reaches the caller after the release.
\<close>

theorem safe_run_releases_connection_once:
  "filter is_release (calls (safe_run env r g ex w))
     = [Release_connection (self_profile r) (name (self_node r))]
   \<and> last (calls (safe_run env r g ex w))
     = Release_connection (self_profile r) (name (self_node r))"
proof -
  have "filter is_release
          (calls (safe_run_attempt env r g ex (RunModelResult (Some (self_node r)))
                    (snd (time_time env w)))) = []"
    using safe_run_attempt_no_release [of env r g ex _ "snd (time_time env w)"]
    by (simp add: filter_empty_conv list_all_iff)
  then show ?thesis
    by (simp add: safe_run_calls)
qed

section \<open>TestRunner.execute\_test\<close>

text \<open>
  Claim C10. \<open>execute_test\<close> makes exactly one call, \<open>adapter.execute_and_fetch\<close> on the
  test's wrapped SQL and name, with \<open>auto_begin=True\<close>, whatever the query returns.
\<close>

theorem execute_test_auto_begin:
  "calls (execute_test env r test w) =
     [Execute_and_fetch (self_profile r) (wrapped_sql test) (name test) True]"
  by (simp add: execute_test_def andthen_def call_def calls_def throw_def ret_def Let_def
      split: prod.splits sum.splits list.splits)

section \<open>Outcomes of safe\_run\<close>

text \<open>
  Claim C1. Whenever \<open>safe_run\<close> returns, the result's \<open>node\<close> is not \<open>None\<close>. When
  \<open>compile\<close> raises a catchable fault (and the release of the connection succeeds),
  \<open>safe_run\<close> returns normally: the result holds the runner's node, \<open>status\<close> is
  \<open>ERROR\<close>, and \<open>error\<close> is the text of the fault, whose own \<open>node\<close> attribute has been
  set to the result's node when it was \<open>None\<close>. The same holds, with the compiled node,
  when \<open>run\<close> raises the catchable fault.
\<close>

theorem safe_run_catchable_fault:
  "(outcome (safe_run env r g ex w) = Inr res \<longrightarrow> node res \<noteq> None)
   \<and> (catchable e
        \<and> compile env r g (snd (time_time env w)) = (Inl e, w2, t)
        \<and> release_connection env (self_profile r) (name (self_node r)) w2 = (Inr (), w3)
      \<longrightarrow> outcome (safe_run env r g ex w) =
            Inr ((RunModelResult (Some (self_node r)))
                   \<lparr>error := Some (to_string env (default_node (Some (self_node r)) e)),
                    status := PyStr ''ERROR'',
                    execution_time := fst (time_time env w3) - fst (time_time env w)\<rparr>))
   \<and> (catchable e
        \<and> compile env r g (snd (time_time env w)) = (Inr cn, w1, t1)
        \<and> \<not> is_ephemeral_model (self_node r)
        \<and> run env r cn ex g w1 = (Inl e, w2, t)
        \<and> release_connection env (self_profile r) (name (self_node r)) w2 = (Inr (), w3)
      \<longrightarrow> outcome (safe_run env r g ex w) =
            Inr ((RunModelResult (Some cn))
                   \<lparr>error := Some (to_string env (default_node (Some cn) e)),
                    status := PyStr ''ERROR'',
                    execution_time := fst (time_time env w3) - fst (time_time env w)\<rparr>))"
  using safe_run_result [of env r g ex w res]
    safe_run_compile_fault [of e env r g w w2 t w3 ex]
    safe_run_run_fault [of e env r g w cn w1 t1 ex w2 t w3]
  by blast

theorem safe_run_catchable_fault_witness:
  "outcome (safe_run broken_compile_env (runner_of ModelRunner model_a) shop_graph () 0) =
     Inr \<lparr>node = Some model_a, error = Some ''Compilation Error in a: syntax error'',
          skip = False, fail = None, status = PyStr ''ERROR'', execution_time = 1\<rparr>
   \<and> outcome (safe_run shop_env (runner_of ModelRunner model_c) shop_graph () 0) =
     Inr \<lparr>node = Some (model_c\<lparr>wrapped_sql := Some ''select 3'',
                   injected_sql := Some ''select 3'',
                   build_path := Some ''target/compiled/c''\<rparr>),
          error = Some ''No materialization for c on postgres'',
          skip = False, fail = None, status = PyStr ''ERROR'', execution_time = 1\<rparr>"
  using safe_run_catchable_fault [of broken_compile_env "runner_of ModelRunner model_a"
      shop_graph "()" 0
      "\<lparr>node = Some model_a, error = Some ''Compilation Error in a: syntax error'',
          skip = False, fail = None, status = PyStr ''ERROR'', execution_time = 1\<rparr>"
      "CompilationException ''syntax error'' None" 1
      "[Compile_called, Compiler_compile_node model_a]" 1]
    safe_run_catchable_fault [of shop_env "runner_of ModelRunner model_c"
      shop_graph "()" 0 _
      "MissingMaterialization (model_c\<lparr>wrapped_sql := Some ''select 3'',
          injected_sql := Some ''select 3'',
          build_path := Some ''target/compiled/c''\<rparr>) ''postgres''" 1
      "calls (run shop_env (runner_of ModelRunner model_c)
         (model_c\<lparr>wrapped_sql := Some ''select 3'', injected_sql := Some ''select 3'',
            build_path := Some ''target/compiled/c''\<rparr>) () shop_graph 1)" 1
      "model_c\<lparr>wrapped_sql := Some ''select 3'', injected_sql := Some ''select 3'',
          build_path := Some ''target/compiled/c''\<rparr>" 1
      "calls (compile shop_env (runner_of ModelRunner model_c) shop_graph 1)"]
  by (simp add: model_defs run_defs)

text \<open>
  Claim C3. \<open>is_ephemeral_model\<close> holds exactly of the nodes of resource type \<open>Model\<close>
  whose materialization is \<open>ephemeral\<close>. For such a node \<open>safe_run\<close> enters \<open>compile\<close> and
  never \<open>run\<close> or \<open>execute\<close>; when \<open>compile\<close> returns a node (and the release succeeds) the
  result is \<open>RunModelResult\<close> of that compiled node, with the elapsed time.
\<close>

theorem ephemeral_model_compiled_not_executed:
  "(is_ephemeral_model n \<longleftrightarrow>
      resource_type n = Model \<and> get_materialization n = Some ''ephemeral'')
   \<and> (is_ephemeral_model (self_node r)
      \<longrightarrow> Compile_called \<in> set (calls (safe_run env r g ex w))
          \<and> \<not> list_ex is_run_or_execute (calls (safe_run env r g ex w)))
   \<and> (is_ephemeral_model (self_node r)
        \<and> compile env r g (snd (time_time env w)) = (Inr cn, w2, t)
        \<and> release_connection env (self_profile r) (name (self_node r)) w2 = (Inr (), w3)
      \<longrightarrow> outcome (safe_run env r g ex w) =
            Inr ((RunModelResult (Some cn))
                   \<lparr>execution_time := fst (time_time env w3) - fst (time_time env w)\<rparr>))"
  using safe_run_ephemeral_calls [of r env g ex w] safe_run_ephemeral [of r env g w cn w2 t w3 ex]
  by (simp add: is_ephemeral_model_def is_model_def is_ephemeral_def)

theorem ephemeral_model_compiled_not_executed_witness:
  "is_ephemeral_model model_b
   \<and> Compile_called \<in> set (calls (safe_run shop_env (runner_of ModelRunner model_b) shop_graph () 0))
   \<and> \<not> list_ex is_run_or_execute
         (calls (safe_run shop_env (runner_of ModelRunner model_b) shop_graph () 0))
   \<and> outcome (safe_run shop_env (runner_of ModelRunner model_b) shop_graph () 0) =
       Inr \<lparr>node = Some (model_b\<lparr>wrapped_sql := Some ''select 2'',
                     injected_sql := Some ''select 2'',
                     build_path := Some ''target/compiled/b''\<rparr>),
            error = None, skip = False, fail = None, status = PyNone, execution_time = 1\<rparr>"
  using ephemeral_model_compiled_not_executed [of model_b "runner_of ModelRunner model_b"
      shop_env shop_graph "()" 0
      "model_b\<lparr>wrapped_sql := Some ''select 2'', injected_sql := Some ''select 2'',
          build_path := Some ''target/compiled/b''\<rparr>" 1
      "calls (compile shop_env (runner_of ModelRunner model_b) shop_graph 1)" 1]
  by (simp add: model_defs run_defs)

text \<open>
  Claim C9. For an ephemeral model node whose \<open>compile\<close> succeeds, \<open>safe_run\<close> returns a
  result when the release succeeds, and every result it returns has \<open>skip = False\<close>,
  \<open>error = None\<close> and \<open>status = None\<close>.
\<close>

theorem ephemeral_outcome_not_skipped:
  assumes "is_ephemeral_model (self_node r)"
    and "compile env r g (snd (time_time env w)) = (Inr cn, w2, t)"
  shows "(release_connection env (self_profile r) (name (self_node r)) w2 = (Inr (), w3)
            \<longrightarrow> (\<exists>res. outcome (safe_run env r g ex w) = Inr res))
         \<and> (\<forall>res. outcome (safe_run env r g ex w) = Inr res
            \<longrightarrow> skip res = False \<and> error res = None \<and> status res = PyNone)"
proof -
  have a: "safe_run_attempt env r g ex (RunModelResult (Some (self_node r)))
          (snd (time_time env w))
        = (Inr (RunModelResult (Some cn)), w2, t)"
    using assms
    by (simp add: safe_run_attempt_def safe_run_try_def RunModelResult_def)
  have "skip res = False \<and> error res = None \<and> status res = PyNone"
    if "outcome (safe_run env r g ex w) = Inr res" for res
    using safe_run_InrD [OF that] a by (auto simp: RunModelResult_def)
  moreover have "\<exists>res. outcome (safe_run env r g ex w) = Inr res"
    if "release_connection env (self_profile r) (name (self_node r)) w2 = (Inr (), w3)"
    using safe_run_normal [OF a that] by blast
  ultimately show ?thesis by blast
qed

theorem ephemeral_outcome_not_skipped_witness:
  "\<exists>res. outcome (safe_run shop_env (runner_of ModelRunner model_b) shop_graph () 0) = Inr res
         \<and> skip res = False \<and> error res = None \<and> status res = PyNone"
  using ephemeral_outcome_not_skipped [of "runner_of ModelRunner model_b"
      shop_env shop_graph 0
      "model_b\<lparr>wrapped_sql := Some ''select 2'', injected_sql := Some ''select 2'',
          build_path := Some ''target/compiled/b''\<rparr>" 1
      "calls (compile shop_env (runner_of ModelRunner model_b) shop_graph 1)" 1 "()"]
  by (simp add: model_defs run_defs) blast

text \<open>
  Claim C7. No result of \<open>on_skip\<close> and no result \<open>safe_run\<close> returns (on the success
  path, the catchable-fault path, or the internal-fault path) has both \<open>skip\<close> true and
  \<open>error\<close> set.
\<close>

theorem skip_and_error_exclusive:
  "(outcome (on_skip r w) = Inr res \<longrightarrow> \<not> (skip res \<and> error res \<noteq> None))
   \<and> (outcome (safe_run env r g ex w') = Inr res' \<longrightarrow> \<not> (skip res' \<and> error res' \<noteq> None))"
proof -
  have "error res = None" if "outcome (on_skip r w) = Inr res"
    using that
    by (auto simp: on_skip_def outcome_def andthen_def emit_def ret_def RunModelResult_def Let_def
        split: if_splits)
  then show ?thesis
    using safe_run_result [of env r g ex w' res'] by auto
qed

theorem skip_and_error_exclusive_witness:
  "outcome (on_skip (runner_of ModelRunner model_a) (0::nat)) =
     Inr \<lparr>node = Some model_a, error = None, skip = True, fail = None, status = PyNone,
          execution_time = 0\<rparr>
   \<and> outcome (safe_run broken_compile_env (runner_of ModelRunner model_a) shop_graph () 0) =
     Inr \<lparr>node = Some model_a, error = Some ''Compilation Error in a: syntax error'',
          skip = False, fail = None, status = PyStr ''ERROR'', execution_time = 1\<rparr>
   \<and> \<not> (skip \<lparr>node = Some model_a, error = None, skip = True, fail = None, status = PyNone,
          execution_time = 0\<rparr>
        \<and> error \<lparr>node = Some model_a, error = None, skip = True, fail = None,
          status = PyNone, execution_time = 0\<rparr> \<noteq> None)
   \<and> \<not> (skip \<lparr>node = Some model_a, error = Some ''Compilation Error in a: syntax error'',
          skip = False, fail = None, status = PyStr ''ERROR'', execution_time = 1\<rparr>
        \<and> error \<lparr>node = Some model_a, error = Some ''Compilation Error in a: syntax error'',
          skip = False, fail = None, status = PyStr ''ERROR'', execution_time = 1\<rparr> \<noteq> None)"
  using skip_and_error_exclusive [of "runner_of ModelRunner model_a" "0::nat"
      "\<lparr>node = Some model_a, error = None, skip = True, fail = None, status = PyNone,
          execution_time = 0\<rparr>"
      broken_compile_env shop_graph "()" 0
      "\<lparr>node = Some model_a, error = Some ''Compilation Error in a: syntax error'',
          skip = False, fail = None, status = PyStr ''ERROR'', execution_time = 1\<rparr>"]
  by (simp add: model_defs run_defs safe_run_defs)

section \<open>Results of a test query\<close>

text \<open>
  Claim C6, as the code has it. When the query fetches exactly one row with one column,
  \<open>execute_test\<close> returns that cell. When it fetches more than one row, whatever the
  number of columns, \<open>execute_test\<close> raises a \<open>RuntimeError\<close> whose message states the
  test's name, the number of rows and the number of columns of the first row. The only
  guard is on the number of rows: one row with no column is not reported that way, the
  read of its first cell raises \<open>IndexError\<close>.
\<close>

theorem execute_test_result_shapes:
  assumes "execute_and_fetch env (self_profile r) (wrapped_sql test) (name test) True w
             = (Inr (res, rows), w')"
  shows "(rows = [[v]] \<longrightarrow> outcome (execute_test env r test w) = Inr v)
       \<and> (length rows > 1 \<longrightarrow>
            outcome (execute_test env r test w) =
              Inl (RuntimeError (''Bad test '' @ name test @ '': Returned ''
                     @ str_nat (length rows) @ '' rows and ''
                     @ str_nat (length (hd rows)) @ '' cols'')))
       \<and> (rows = [[]] \<longrightarrow> outcome (execute_test env r test w) = Inl IndexError)"
  using assms
  by (auto simp: execute_test_def andthen_def call_def outcome_def ret_def throw_def Let_def
      bad_test_message_def split: list.splits)

theorem execute_test_result_shapes_witness:
  "outcome (execute_test (fetch_env [[PyInt 3]]) (runner_of TestRunner test_t) test_t 0)
     = Inr (PyInt 3)
   \<and> outcome (execute_test (fetch_env [[PyInt 1], [PyInt 2]]) (runner_of TestRunner test_t)
        test_t 0)
     = Inl (RuntimeError ''Bad test t: Returned 2 rows and 1 cols'')
   \<and> outcome (execute_test (fetch_env [[], []]) (runner_of TestRunner test_t) test_t 0)
     = Inl (RuntimeError ''Bad test t: Returned 2 rows and 0 cols'')
   \<and> outcome (execute_test (fetch_env [[]]) (runner_of TestRunner test_t) test_t 0)
     = Inl IndexError"
proof -
  have f: "execute_and_fetch (fetch_env rows) (self_profile (runner_of TestRunner test_t))
             (wrapped_sql test_t) (name test_t) True 0 = (Inr (''SELECT'', rows), 0)" for rows
    by (simp add: fetch_env_def)
  have d: "str_nat 0 = ''0''" "str_nat (Suc 0) = ''1''" "str_nat (Suc (Suc 0)) = ''2''"
    by code_simp+
  have n: "name test_t = ''t''"
    by (simp add: test_t_def)
  show ?thesis
    using execute_test_result_shapes [OF f, of "[[PyInt 3]]" "PyInt 3"]
      execute_test_result_shapes [OF f, of "[[PyInt 1], [PyInt 2]]"]
      execute_test_result_shapes [OF f, of "[[], []]"]
      execute_test_result_shapes [OF f, of "[[]]"]
    by (simp add: d n)
qed

text \<open>
  Claim C6 as stated fails on a result of one row with zero columns: the fault is an
  \<open>IndexError\<close>, with no message about the test, the rows or the columns.
\<close>

theorem execute_test_zero_columns_counterexample:
  "outcome (execute_test (fetch_env [[]]) (runner_of TestRunner test_t) test_t 0)
     = Inl IndexError"
  by (simp add: model_defs run_defs)

section \<open>Schema creation before the batch\<close>

lemma andthen_call:
  "andthen (call ev f) k w =
     (case f w of
        (Inl e, w1) \<Rightarrow> (Inl e, w1, [ev])
      | (Inr x, w1) \<Rightarrow> (case k x w1 of (r, w2, t) \<Rightarrow> (r, w2, ev # t)))"
  by (simp add: andthen_def call_def split: prod.splits sum.splits)

lemma create_each_prefix:
  "\<exists>k. created_schemas (calls (create_each env p ss w)) = take k ss"
proof (induction ss arbitrary: w)
  case Nil
  then show ?case by (simp add: ret_def calls_def)
next
  case (Cons s ss)
  show ?case
  proof (cases "create_schema env p s w")
    case (Pair out w1)
    show ?thesis
    proof (cases out)
      case (Inl e)
      with Pair have "created_schemas (calls (create_each env p (s # ss) w)) = take 1 (s # ss)"
        by (simp add: andthen_call calls_def)
      then show ?thesis by blast
    next
      case (Inr u)
      from Cons.IH [of w1] obtain k
        where k: "created_schemas (calls (create_each env p ss w1)) = take k ss" by blast
      with Pair Inr
      have "created_schemas (calls (create_each env p (s # ss) w)) = take (Suc k) (s # ss)"
        by (auto simp: andthen_call calls_def split: prod.splits)
      then show ?thesis by blast
    qed
  qed
qed

lemma create_each_all:
  "outcome (create_each env p ss w) = Inr u
     \<Longrightarrow> created_schemas (calls (create_each env p ss w)) = ss"
proof (induction ss arbitrary: w)
  case Nil
  then show ?case by (simp add: ret_def calls_def)
next
  case (Cons s ss)
  obtain out w1 where c: "create_schema env p s w = (out, w1)"
    by (cases "create_schema env p s w")
  obtain out' w2 t where r: "create_each env p ss w1 = (out', w2, t)"
    by (cases "create_each env p ss w1")
  from Cons.prems c r have o: "out = Inr ()" "out' = Inr u"
    by (auto simp: andthen_call outcome_def split: sum.splits)
  from Cons.IH [of w1] r o have "created_schemas t = ss"
    by (simp add: outcome_def calls_def)
  with c r o show ?case
    by (simp add: andthen_call calls_def)
qed

lemma distinct_set_add: "distinct xs \<Longrightarrow> distinct (set_add xs s)"
  by (simp add: set_add_def)

lemma set_set_add: "set (set_add xs s) = insert s (set xs)"
  by (auto simp: set_add_def)

lemma collect_schemas:
  "distinct acc \<Longrightarrow>
   distinct (foldl (\<lambda>schemas n. if is_model n \<and> \<not> is_ephemeral n
                                  then set_add schemas (schema n) else schemas) acc ns)
   \<and> set (foldl (\<lambda>schemas n. if is_model n \<and> \<not> is_ephemeral n
                                 then set_add schemas (schema n) else schemas) acc ns)
     = set acc \<union> schema ` {n \<in> set ns. is_model n \<and> \<not> is_ephemeral n}"
proof (induction ns arbitrary: acc)
  case Nil
  then show ?case by simp
next
  case (Cons n ns)
  show ?case
    using Cons.IH [of "set_add acc (schema n)"] Cons.IH [of acc] Cons.prems
    by (auto simp: distinct_set_add set_set_add)
qed

lemma get_model_schemas_set:
  assumes "nodes g = Some ns"
  shows "\<exists>req. get_model_schemas g = Inr req \<and> distinct req
           \<and> set req = schema ` {n \<in> snd ` set ns. is_model n \<and> \<not> is_ephemeral n}"
  using assms collect_schemas [of "[]" "map snd ns"]
  by (simp add: get_model_schemas_def)

text \<open>
  Claim C4. For a graph with nodes \<open>ns\<close> and the schemas \<open>existing\<close> the adapter reports,
  \<open>create_schemas\<close> (the first step of \<open>ModelRunner.before_run\<close>) calls
  \<open>adapter.create_schema\<close> at most once per schema and only for schemas of non-ephemeral
  model nodes that do not exist yet; when it returns it has called it for every such
  schema; when all the required schemas exist it creates none.
\<close>

theorem create_schemas_creates_missing:
  assumes "nodes g = Some ns"
    and "get_existing_schemas env (run_environment proj) w = (Inr existing, w1)"
  shows "distinct (created_schemas (calls (create_schemas env proj ad g w)))
       \<and> set (created_schemas (calls (create_schemas env proj ad g w)))
           \<subseteq> schema ` {n \<in> snd ` set ns. is_model n \<and> \<not> is_ephemeral n} - set existing
       \<and> (outcome (create_schemas env proj ad g w) = Inr ()
           \<longrightarrow> set (created_schemas (calls (create_schemas env proj ad g w)))
               = schema ` {n \<in> snd ` set ns. is_model n \<and> \<not> is_ephemeral n} - set existing)
       \<and> (schema ` {n \<in> snd ` set ns. is_model n \<and> \<not> is_ephemeral n} \<subseteq> set existing
           \<longrightarrow> created_schemas (calls (create_schemas env proj ad g w)) = [])"
proof -
  let ?p = "run_environment proj"
  from get_model_schemas_set [OF assms(1)] obtain req
    where req: "get_model_schemas g = Inr req" "distinct req"
      "set req = schema ` {n \<in> snd ` set ns. is_model n \<and> \<not> is_ephemeral n}"
    by blast
  let ?todo = "set_minus req (remdups existing)"
  have run: "create_schemas env proj ad g w =
               (case create_each env ?p ?todo w1 of
                  (x, w2, t) \<Rightarrow> (x, w2, Get_existing_schemas ?p # t))"
    using req(1) assms(2) by (simp add: create_schemas_def andthen_call Let_def)
  have cs: "created_schemas (calls (create_schemas env proj ad g w))
              = created_schemas (calls (create_each env ?p ?todo w1))"
    by (simp add: run calls_def split: prod.splits)
  have out: "outcome (create_schemas env proj ad g w) = outcome (create_each env ?p ?todo w1)"
    by (simp add: run outcome_def split: prod.splits)
  have todo: "distinct ?todo" "set ?todo = set req - set existing"
    using req(2) by (auto simp: set_minus_def)
  obtain k where k: "created_schemas (calls (create_each env ?p ?todo w1)) = take k ?todo"
    using create_each_prefix [of env ?p ?todo w1] by blast
  have 1: "distinct (created_schemas (calls (create_schemas env proj ad g w)))"
    using todo(1) by (simp add: cs k)
  have 2: "set (created_schemas (calls (create_schemas env proj ad g w)))
             \<subseteq> set req - set existing"
    using set_take_subset [of k ?todo] todo(2) by (simp add: cs k)
  have 3: "set (created_schemas (calls (create_schemas env proj ad g w)))
             = set req - set existing"
    if "outcome (create_schemas env proj ad g w) = Inr ()"
    using create_each_all [of env ?p ?todo w1 "()"] that todo(2) by (simp add: cs out)
  have 4: "created_schemas (calls (create_schemas env proj ad g w)) = []"
    if "set req \<subseteq> set existing"
  proof -
    from that have "set req - set existing = {}" by auto
    with 2 show ?thesis by simp
  qed
  show ?thesis
    using 1 2 3 4 by (simp add: req(3))
qed

theorem create_schemas_creates_missing_witness:
  "calls (create_schemas shop_env shop_project postgres shop_graph 0)
     = [Get_existing_schemas ''dev'', Create_schema ''dev'' ''marts'']
   \<and> outcome (create_schemas shop_env shop_project postgres shop_graph 0) = Inr ()
   \<and> set (created_schemas (calls (create_schemas shop_env shop_project postgres shop_graph 0)))
     = {''analytics'', ''marts''} - {''analytics''}"
proof -
  have n: "nodes shop_graph = Some [(''model.shop.a'', model_a), (''model.shop.b'', model_b),
     (''model.shop.c'', model_c), (''test.shop.t'', test_t),
     (''operation.shop.h1'', hook_1), (''operation.shop.h2'', hook_2)]"
    by (simp add: shop_graph_def)
  have e: "get_existing_schemas shop_env (run_environment shop_project) 0
             = (Inr [''analytics''], 0)"
    by (simp add: shop_env_def)
  have c: "calls (create_schemas shop_env shop_project postgres shop_graph 0)
     = [Get_existing_schemas ''dev'', Create_schema ''dev'' ''marts'']"
    "outcome (create_schemas shop_env shop_project postgres shop_graph 0) = Inr ()"
    by (simp_all add: create_schemas_def get_model_schemas_def set_add_def set_minus_def
        model_defs run_defs Let_def)
  show ?thesis
    using create_schemas_creates_missing [OF n e, of postgres] c
    by auto
qed

section \<open>Materialization dispatch in ModelRunner.execute\<close>

text \<open>
  Claim C8. Once the rendering context is built and the registry has answered:
  when no macro is registered for the node's materialization and the adapter's type,
  \<open>ModelRunner.execute\<close> raises the MissingMaterialization fault for this node and this
  adapter kind, and invokes no macro; when a macro \<open>m\<close> is registered it is invoked next,
  and when it returns, the status of the result is the status of what \<open>load_result\<close>
  finds in the context under the key \<open>main\<close>.
\<close>

theorem ModelRunner_execute_macro_dispatch:
  assumes "generate env model (self_project r) g w = (Inr ctx, w1)"
    and "get_materialization_macro env g (get_materialization model)
           (adapter_type (self_adapter r)) w1 = (Inr mm, w2)"
  shows "(mm = None \<longrightarrow>
            outcome (ModelRunner_execute env r model ex g w)
              = Inl (MissingMaterialization model (adapter_type (self_adapter r)))
            \<and> calls (ModelRunner_execute env r model ex g w)
              = [Generate_context model,
                 Get_materialization_macro (get_materialization model)
                   (adapter_type (self_adapter r))])
       \<and> (mm = Some m \<longrightarrow>
            take 3 (calls (ModelRunner_execute env r model ex g w))
              = [Generate_context model,
                 Get_materialization_macro (get_materialization model)
                   (adapter_type (self_adapter r)),
                 Macro_generator m])
       \<and> (mm = Some m \<and> macro_generator env m ctx w2 = (Inr (), w3)
            \<and> load_result env ctx ''main'' w3 = (Inr (Some st), w4) \<longrightarrow>
            outcome (ModelRunner_execute env r model ex g w)
              = Inr ((RunModelResult (Some model))\<lparr>status := st\<rparr>)
            \<and> calls (ModelRunner_execute env r model ex g w)
              = [Generate_context model,
                 Get_materialization_macro (get_materialization model)
                   (adapter_type (self_adapter r)),
                 Macro_generator m, Load_result ''main''])"
  using assms
  by (auto simp: ModelRunner_execute_def missing_materialization_def andthen_call
      throw_def ret_def call_def outcome_def calls_def
      split: prod.splits sum.splits option.splits)

theorem ModelRunner_execute_macro_dispatch_witness:
  "outcome (ModelRunner_execute shop_env (runner_of ModelRunner model_c) model_c () shop_graph 0)
     = Inl (MissingMaterialization model_c ''postgres'')
   \<and> outcome (ModelRunner_execute shop_env (runner_of ModelRunner model_a) model_a () shop_graph 0)
     = Inr \<lparr>node = Some model_a, error = None, skip = False, fail = None,
            status = PyStr ''CREATE TABLE'', execution_time = 0\<rparr>
   \<and> calls (ModelRunner_execute shop_env (runner_of ModelRunner model_a) model_a () shop_graph 0)
     = [Generate_context model_a, Get_materialization_macro (Some ''table'') ''postgres'',
        Macro_generator ''materialization_table_default'', Load_result ''main'']"
proof -
  have g: "generate shop_env n (self_project (runner_of ModelRunner n)) shop_graph 0
             = (Inr 0, 0)" for n
    by (simp add: shop_env_def)
  have c: "get_materialization_macro shop_env shop_graph (get_materialization model_c)
             (adapter_type (self_adapter (runner_of ModelRunner model_c))) 0 = (Inr None, 0)"
    by (simp add: shop_env_def model_c_def get_materialization_def)
  have a: "get_materialization_macro shop_env shop_graph (get_materialization model_a)
             (adapter_type (self_adapter (runner_of ModelRunner model_a))) 0
           = (Inr (Some ''materialization_table_default''), 0)"
    by (simp add: shop_env_def model_a_def get_materialization_def)
  have m: "macro_generator shop_env ''materialization_table_default'' 0 0 = (Inr (), 0)"
    "load_result shop_env 0 ''main'' 0 = (Inr (Some (PyStr ''CREATE TABLE'')), 0)"
    by (simp_all add: shop_env_def)
  have k: "adapter_type (self_adapter (runner_of ModelRunner n)) = ''postgres''" for n
    by (simp add: runner_of_def postgres_def)
  have t: "get_materialization model_a = Some ''table''"
    by (simp add: model_a_def get_materialization_def)
  show ?thesis
    using ModelRunner_execute_macro_dispatch [OF g c, where ex = "()"]
      ModelRunner_execute_macro_dispatch [OF g a, where ex = "()"
        and m = "''materialization_table_default''" and ?w3.0 = 0
        and st = "PyStr ''CREATE TABLE''" and ?w4.0 = 0] m
    by (simp add: k t RunModelResult_def)
qed

section \<open>Hooks of the batch\<close>

lemma not_execute_or_release:
  "\<not> is_execute_or_release e \<Longrightarrow> no_auto_begin e \<and> \<not> is_release e \<and> \<not> is_execute_one e"
  by (cases e) simp_all

lemma compile_hooks_no_statement:
  "calls_sat (\<lambda>e. \<not> is_execute_or_release e) (compile_hooks env ad proj g hs)"
proof (induction hs)
  case Nil
  show ?case by (simp add: calls_sat_ret)
next
  case (Cons h hs)
  show ?case
    by (auto intro!: calls_sat_intros calls_sat_compile_node Cons)
qed

lemma execute_hooks_discipline:
  "execute_hooks env p c hs w = (out, w', t) \<Longrightarrow>
     list_all no_auto_begin t
     \<and> released_per_statement (filter is_execute_or_release t)
     \<and> (out = Inr () \<longrightarrow> length (filter is_release t) = length (filter is_execute_one t))"
proof (induction hs arbitrary: w out w' t)
  case Nil
  then show ?case by (auto simp: ret_def)
next
  case (Cons h hs)
  let ?sql = "case hook_sql h of None \<Rightarrow> [] | Some q \<Rightarrow> q"
  let ?E = "Execute_one p ?sql c False"
  let ?R = "Release_connection p c"
  let ?body = "andthen (call ?E (execute_one env p ?sql c False))
                 (\<lambda>_. andthen (call ?R (release_connection env p c))
                        (\<lambda>_. execute_hooks env p c hs))"
  have body: "list_all no_auto_begin t1
     \<and> released_per_statement (filter is_execute_or_release t1)
     \<and> (out1 = Inr () \<longrightarrow> length (filter is_release t1) = length (filter is_execute_one t1))"
    if "?body w0 = (out1, w1, t1)" for w0 out1 w1 t1
    using that Cons.IH
    by (auto simp: andthen_call split: prod.splits sum.splits)
  show ?case
  proof (cases "strict_mode env")
    case False
    with Cons.prems have "?body w = (out, w', t)"
      by (simp add: andthen_def ret_def Let_def split: prod.splits)
    then show ?thesis by (rule body)
  next
    case True
    obtain v wv where v: "validate_hook env h w = (v, wv)"
      by (cases "validate_hook env h w")
    show ?thesis
    proof (cases v)
      case (Inl e)
      with Cons.prems True v show ?thesis
        by (auto simp: andthen_call Let_def)
    next
      case (Inr u)
      obtain out1 w1 t1 where b: "?body wv = (out1, w1, t1)"
        by (cases "?body wv")
      with Cons.prems True v Inr have "out = out1" "t = Validate_hook h # t1"
        by (simp_all add: andthen_call Let_def)
      with body [OF b] show ?thesis by simp
    qed
  qed
qed

lemma run_hooks_shape:
  fixes env :: "('w, 'c) env"
  defines "ns \<equiv> \<lambda>g. case nodes g of None \<Rightarrow> [] | Some kvs \<Rightarrow> map snd kvs"
  shows "\<exists>t1 t2. calls (run_hooks env proj ad g ht w)
             = Get_nodes_by_tags (ns g) ht Operation # t1 @ t2
           \<and> ((t1 = [] \<and> t2 = []) \<or> (\<exists>t. t1 = Clear_transaction (run_environment proj) # t))
           \<and> list_all (\<lambda>e. \<not> is_execute_or_release e) t1
           \<and> list_all no_auto_begin t2
           \<and> released_per_statement (filter is_execute_or_release t2)
           \<and> (outcome (run_hooks env proj ad g ht w) = Inr ()
                \<longrightarrow> length (filter is_release t2) = length (filter is_execute_one t2))"
proof -
  let ?p = "run_environment proj"
  let ?G = "Get_nodes_by_tags (ns g) ht Operation"
  let ?C = "Clear_transaction ?p"
  let ?k3 = "\<lambda>conn_name. andthen (compile_hooks env ad proj g hooks)
                (\<lambda>compiled_hooks. execute_hooks env ?p conn_name compiled_hooks)"
  have unfold: "run_hooks env proj ad g ht =
      andthen (call ?G (get_nodes_by_tags env (ns g) ht Operation))
        (\<lambda>hooks. andthen (call ?C (clear_transaction env ?p))
          (\<lambda>conn_name. andthen (compile_hooks env ad proj g hooks)
             (\<lambda>compiled_hooks. execute_hooks env ?p conn_name compiled_hooks)))"
    by (simp add: run_hooks_def ns_def Let_def)
  obtain o1 w1 where g1: "get_nodes_by_tags env (ns g) ht Operation w = (o1, w1)"
    by (cases "get_nodes_by_tags env (ns g) ht Operation w")
  have c1: "call ?G (get_nodes_by_tags env (ns g) ht Operation) w = (o1, w1, [?G])"
    using g1 by (simp add: call_def)
  show ?thesis
  proof (cases o1)
    case (Inl e)
    from c1 Inl have "run_hooks env proj ad g ht w = (Inl e, w1, [?G])"
      by (simp add: unfold andthen_def)
    then have "calls (run_hooks env proj ad g ht w) = ?G # [] @ []"
      "outcome (run_hooks env proj ad g ht w) = Inl e"
      by (simp_all add: calls_def outcome_def)
    then show ?thesis by (intro exI [of _ "[]"]) simp
  next
    case hooks: (Inr hooks)
    obtain o2 w2 where g2: "clear_transaction env ?p w1 = (o2, w2)"
      by (cases "clear_transaction env ?p w1")
    have c2: "call ?C (clear_transaction env ?p) w1 = (o2, w2, [?C])"
      using g2 by (simp add: call_def)
    show ?thesis
    proof (cases o2)
      case (Inl e)
      from c1 hooks c2 Inl have "run_hooks env proj ad g ht w = (Inl e, w2, [?G, ?C])"
        by (simp add: unfold andthen_def)
      then have "calls (run_hooks env proj ad g ht w) = ?G # [?C] @ []"
        "outcome (run_hooks env proj ad g ht w) = Inl e"
        by (simp_all add: calls_def outcome_def)
      then show ?thesis
        by (intro exI [of _ "[?C]"] exI [of _ "[]"]) simp
    next
      case conn: (Inr conn)
      obtain o3 w3 t3 where g3: "compile_hooks env ad proj g hooks w2 = (o3, w3, t3)"
        by (cases "compile_hooks env ad proj g hooks w2")
      have t3: "list_all (\<lambda>e. \<not> is_execute_or_release e) t3"
        by (rule calls_satE [OF compile_hooks_no_statement g3])
      show ?thesis
      proof (cases o3)
        case (Inl e)
        from c1 hooks c2 conn g3 Inl
        have "run_hooks env proj ad g ht w = (Inl e, w3, ?G # ?C # t3)"
          by (simp add: unfold andthen_def)
        then have "calls (run_hooks env proj ad g ht w) = ?G # (?C # t3) @ []"
          "outcome (run_hooks env proj ad g ht w) = Inl e"
          by (simp_all add: calls_def outcome_def)
        with t3 show ?thesis
          by (intro exI [of _ "?C # t3"] exI [of _ "[]"]) simp
      next
        case chs: (Inr chs)
        obtain o4 w4 t4 where g4: "execute_hooks env ?p conn chs w3 = (o4, w4, t4)"
          by (cases "execute_hooks env ?p conn chs w3")
        from c1 hooks c2 conn g3 chs g4
        have "run_hooks env proj ad g ht w = (o4, w4, ?G # ?C # t3 @ t4)"
          by (simp add: unfold andthen_def)
        then have "calls (run_hooks env proj ad g ht w) = ?G # (?C # t3) @ t4"
          "outcome (run_hooks env proj ad g ht w) = o4"
          by (simp_all add: calls_def outcome_def)
        with t3 execute_hooks_discipline [OF g4] show ?thesis
          by (intro exI [of _ "?C # t3"] exI [of _ t4]) simp
      qed
    qed
  qed
qed

lemma filter_no_statement:
  "list_all (\<lambda>e. \<not> is_execute_or_release e) t \<Longrightarrow>
     filter is_execute_or_release t = [] \<and> filter is_release t = []
     \<and> filter is_execute_one t = [] \<and> list_all no_auto_begin t"
  by (induction t) (auto dest: not_execute_or_release)

text \<open>
  Claim C5, as the code has it. In \<open>run_hooks\<close> no \<open>execute_one\<close> call comes before the
  call of \<open>clear_transaction\<close>; every \<open>execute_one\<close> call passes \<open>auto_begin=False\<close>; and
  the release of the hook connection is inside the second loop: each hook statement is
  directly followed by the release of its connection, there is no other release, and
  when \<open>run_hooks\<close> returns there are as many releases as hook statements.
\<close>

theorem run_hooks_transaction_discipline:
  "\<not> list_ex is_execute_one
       (takeWhile (\<lambda>e. e \<noteq> Clear_transaction (run_environment proj))
          (calls (run_hooks env proj ad g ht w)))
   \<and> list_all no_auto_begin (calls (run_hooks env proj ad g ht w))
   \<and> released_per_statement
       (filter is_execute_or_release (calls (run_hooks env proj ad g ht w)))
   \<and> (outcome (run_hooks env proj ad g ht w) = Inr ()
       \<longrightarrow> length (filter is_release (calls (run_hooks env proj ad g ht w)))
           = length (filter is_execute_one (calls (run_hooks env proj ad g ht w))))"
proof -
  let ?c = "Clear_transaction (run_environment proj)"
  from run_hooks_shape [of env proj ad g ht w] obtain ns t1 t2 where
    c: "calls (run_hooks env proj ad g ht w) = Get_nodes_by_tags ns ht Operation # t1 @ t2"
    and h: "(t1 = [] \<and> t2 = []) \<or> (\<exists>t. t1 = ?c # t)"
    and t1: "list_all (\<lambda>e. \<not> is_execute_or_release e) t1"
    and t2: "list_all no_auto_begin t2"
      "released_per_statement (filter is_execute_or_release t2)"
      "outcome (run_hooks env proj ad g ht w) = Inr ()
         \<longrightarrow> length (filter is_release t2) = length (filter is_execute_one t2)"
    by blast
  note f = filter_no_statement [OF t1]
  have a: "\<not> list_ex is_execute_one
             (takeWhile (\<lambda>e. e \<noteq> ?c) (calls (run_hooks env proj ad g ht w)))"
    using h by (auto simp: c)
  show ?thesis
    using a f t2 by (simp add: c)
qed

theorem run_hooks_transaction_discipline_witness:
  "outcome (run_hooks shop_env shop_project postgres shop_graph Start 0) = Inr ()
   \<and> length (filter is_release
        (calls (run_hooks shop_env shop_project postgres shop_graph Start 0))) = 2
   \<and> length (filter is_execute_one
        (calls (run_hooks shop_env shop_project postgres shop_graph Start 0))) = 2"
proof -
  have "filter is_execute_or_release
          (calls (run_hooks shop_env shop_project postgres shop_graph Start 0))
     = [Execute_one ''dev'' ''grant 1'' ''master'' False, Release_connection ''dev'' ''master'',
        Execute_one ''dev'' ''grant 2'' ''master'' False, Release_connection ''dev'' ''master'']"
    "outcome (run_hooks shop_env shop_project postgres shop_graph Start 0) = Inr ()"
    by (simp_all add: run_hooks_def Let_def model_defs run_defs)
  have "filter is_execute_one
          (calls (run_hooks shop_env shop_project postgres shop_graph Start 0))
     = [Execute_one ''dev'' ''grant 1'' ''master'' False,
        Execute_one ''dev'' ''grant 2'' ''master'' False]"
    by (simp add: run_hooks_def Let_def model_defs run_defs)
  with \<open>outcome _ = Inr ()\<close> show ?thesis
    using run_hooks_transaction_discipline [of shop_project shop_env postgres shop_graph Start 0]
    by simp
qed

text \<open>
  Claim C5 as stated fails on the release: with two hooks the connection is released
  after the first statement, before the second one runs, and again after the second;
  with no hook it is not released at all.
\<close>

theorem run_hooks_release_counterexample:
  "filter is_execute_or_release
      (calls (run_hooks shop_env shop_project postgres shop_graph Start 0))
     = [Execute_one ''dev'' ''grant 1'' ''master'' False, Release_connection ''dev'' ''master'',
        Execute_one ''dev'' ''grant 2'' ''master'' False, Release_connection ''dev'' ''master'']
   \<and> filter is_release
      (calls (run_hooks shop_env shop_project postgres empty_graph Start 0)) = []"
  by (simp add: run_hooks_def Let_def model_defs run_defs empty_graph_def)

end
